theory Spec2Isabelle
  imports Complex_Main
begin

section \<open>The aggregation script \<^verbatim>\<open>tools/combine.py\<close>\<close>

text \<open>
  The script is a single top-level loop over the names that \<^verbatim>\<open>os.listdir\<close> returns for
  the directory of published files. It is Python 2 code (files are opened in binary mode
  for the \<^verbatim>\<open>csv\<close> module). The model follows it statement by statement: global variables
  are a map from names to values, the two directories are maps from file names to the
  rows of the file, and every exception is a value that ends the run. The variables of
  the map are those that hold lists of numbers; \<^verbatim>\<open>filename\<close> and \<^verbatim>\<open>group\<close> are
  arguments of the functions, and the file, reader and writer objects live inside the
  function of the statement that opens them.
\<close>

subsection \<open>Values, files and exceptions\<close>

text \<open>
  A field of a CSV row is classified by what \<^verbatim>\<open>int()\<close> and \<^verbatim>\<open>float()\<close> make of it:
  \<open>IntLit n\<close> is read by both, \<open>FloatLit r\<close> by \<^verbatim>\<open>float()\<close> only, \<open>Other\<close> by neither.
  Floats are taken as reals: the script only compares and reorders them.
\<close>

datatype field = IntLit int | FloatLit real | Other string

datatype pynum = PInt int | PFloat real

type_synonym row = "field list"
type_synonym csvfile = "row list"

datatype pyerr =
    NameError string
  | IOError
  | OSError
  | TypeError
  | ValueError
  | IndexError
  | StopIteration

text \<open>What the script does to the file system, in the order it does it.\<close>

datatype effect = Removed string | Truncated string | RowWritten string row

text \<open>
  \<open>published\<close> and \<open>aggregate\<close> hold the regular files of the two directories by name: a
  name outside the map cannot be opened for reading or removed. \<open>unwritable\<close> holds the
  names under the aggregate directory that \<^verbatim>\<open>open(path, 'wb')\<close> refuses for a reason other
  than the name itself: a subdirectory of that name, a missing aggregate directory, a
  refused permission.
\<close>

record state =
  vars :: "string \<rightharpoonup> pynum list"
  published :: "string \<rightharpoonup> csvfile"
  aggregate :: "string \<rightharpoonup> csvfile"
  unwritable :: "string set"
  effects :: "effect list"

type_synonym result = "(pyerr \<times> state) + state"

definition init_state :: "(string \<rightharpoonup> csvfile) \<Rightarrow> (string \<rightharpoonup> csvfile) \<Rightarrow> state" where
  "init_state pub agg =
     \<lparr>vars = Map.empty, published = pub, aggregate = agg, unwritable = {}, effects = []\<rparr>"

definition lookup :: "state \<Rightarrow> string \<Rightarrow> pyerr + pynum list" where
  "lookup s n = (case vars s n of None \<Rightarrow> Inl (NameError n) | Some v \<Rightarrow> Inr v)"

definition assign :: "string \<Rightarrow> pynum list \<Rightarrow> state \<Rightarrow> state" where
  "assign n v s = s\<lparr>vars := (vars s)(n \<mapsto> v)\<rparr>"

subsection \<open>Line 9: the group of a file name\<close>

text \<open>\<^verbatim>\<open>str.rsplit(sep, 1)\<close>: split once, at the last occurrence of the separator.\<close>

definition rsplit1 :: "char \<Rightarrow> string \<Rightarrow> string list" where
  "rsplit1 c s =
     (if c \<in> set s
      then [rev (tl (dropWhile (\<lambda>x. x \<noteq> c) (rev s))), rev (takeWhile (\<lambda>x. x \<noteq> c) (rev s))]
      else [s])"

definition group_of :: "string \<Rightarrow> string" where
  "group_of filename = hd (rsplit1 (CHR ''_'') filename)"

text \<open>
  The script opens the aggregate of a group at the path \<^verbatim>\<open>'../aggregate/' + group\<close>. For the
  groups \<open>''\<close>, \<open>.\<close> and \<open>..\<close> (of the file names \<open>_001\<close>, \<open>._001\<close>, \<open>.._001\<close>) that path is
  a directory, which \<^verbatim>\<open>open\<close> refuses in either mode with \<^verbatim>\<open>IOError\<close>.
\<close>

definition names_directory :: "string \<Rightarrow> bool" where
  "names_directory grp = (grp = [] \<or> grp = ''.'' \<or> grp = ''..'')"

text \<open>
  The spec's wording of the group key, for comparison: the file name cut into its
  \<open>_\<close>-delimited segments, the last segment dropped, the rest joined again.
\<close>

fun segments :: "char \<Rightarrow> string \<Rightarrow> string list" where
  "segments c [] = [[]]"
| "segments c (x # xs) =
     (if x = c then [] # segments c xs
      else (case segments c xs of [] \<Rightarrow> [[x]] | seg # segs \<Rightarrow> (x # seg) # segs))"

fun join :: "char \<Rightarrow> string list \<Rightarrow> string" where
  "join c [] = []"
| "join c [seg] = seg"
| "join c (seg # segs) = seg @ c # join c segs"

definition without_last_segment :: "string \<Rightarrow> string" where
  "without_last_segment filename = join (CHR ''_'') (butlast (segments (CHR ''_'') filename))"

subsection \<open>The \<^verbatim>\<open>csv\<close> module and the conversions\<close>

text \<open>
  \<^verbatim>\<open>csv.reader\<close> and \<^verbatim>\<open>csv.writer\<close> take the formatting parameters of a dialect as
  keyword arguments; any other keyword is a \<^verbatim>\<open>TypeError\<close>. Keywords are case sensitive.
\<close>

definition csv_keywords :: "string list" where
  "csv_keywords = [''dialect'', ''delimiter'', ''doublequote'', ''escapechar'',
     ''lineterminator'', ''quotechar'', ''quoting'', ''skipinitialspace'', ''strict'']"

definition csv_reader :: "string list \<Rightarrow> csvfile \<Rightarrow> pyerr + csvfile" where
  "csv_reader kws rows = (if list_all (\<lambda>k. k \<in> set csv_keywords) kws then Inr rows else Inl TypeError)"

definition csv_writer :: "string list \<Rightarrow> pyerr + unit" where
  "csv_writer kws = (if list_all (\<lambda>k. k \<in> set csv_keywords) kws then Inr () else Inl TypeError)"

definition next_row :: "csvfile \<Rightarrow> pyerr + (row \<times> csvfile)" where
  "next_row reader = (case reader of [] \<Rightarrow> Inl StopIteration | r # rest \<Rightarrow> Inr (r, rest))"

fun py_int :: "field \<Rightarrow> pyerr + pynum" where
  "py_int (IntLit n) = Inr (PInt n)"
| "py_int (FloatLit r) = Inl ValueError"
| "py_int (Other t) = Inl ValueError"

fun py_float :: "field \<Rightarrow> pyerr + pynum" where
  "py_float (IntLit n) = Inr (PFloat (of_int n))"
| "py_float (FloatLit r) = Inr (PFloat r)"
| "py_float (Other t) = Inl ValueError"

text \<open>The list comprehension \<^verbatim>\<open>[conv(x) for x in row]\<close>: the first failure raises.\<close>

fun comprehension :: "(field \<Rightarrow> pyerr + pynum) \<Rightarrow> row \<Rightarrow> pyerr + pynum list" where
  "comprehension conv [] = Inr []"
| "comprehension conv (x # xs) =
     (case conv x of
        Inl e \<Rightarrow> Inl e
      | Inr v \<Rightarrow> (case comprehension conv xs of Inl e \<Rightarrow> Inl e | Inr vs \<Rightarrow> Inr (v # vs)))"

fun render :: "pynum \<Rightarrow> field" where
  "render (PInt n) = IntLit n"
| "render (PFloat r) = FloatLit r"

fun num_value :: "pynum \<Rightarrow> real" where
  "num_value (PInt n) = of_int n"
| "num_value (PFloat r) = r"

text \<open>
  \<^verbatim>\<open>+\<close> on numbers. Only the integer case arises from the script, which adds entries of
  the two \<^verbatim>\<open>int()\<close>-converted rows; a float operand gives a float.
\<close>

fun py_add :: "pynum \<Rightarrow> pynum \<Rightarrow> pynum" where
  "py_add (PInt a) (PInt b) = PInt (a + b)"
| "py_add x y = PFloat (num_value x + num_value y)"

text \<open>\<^verbatim>\<open>list.sort\<close>: ascending by value, stable.\<close>

definition list_sort :: "pynum list \<Rightarrow> pynum list" where
  "list_sort xs = sort_key num_value xs"

subsection \<open>The \<^verbatim>\<open>except\<close> clause\<close>

text \<open>
  The class hierarchy of the built-in exceptions the script can meet, as the method
  resolution order of each.
\<close>

fun mro :: "pyerr \<Rightarrow> string list" where
  "mro (NameError n) = [''NameError'', ''StandardError'', ''Exception'', ''BaseException'']"
| "mro IOError = [''IOError'', ''EnvironmentError'', ''StandardError'', ''Exception'', ''BaseException'']"
| "mro OSError = [''OSError'', ''EnvironmentError'', ''StandardError'', ''Exception'', ''BaseException'']"
| "mro TypeError = [''TypeError'', ''StandardError'', ''Exception'', ''BaseException'']"
| "mro ValueError = [''ValueError'', ''StandardError'', ''Exception'', ''BaseException'']"
| "mro IndexError = [''IndexError'', ''LookupError'', ''StandardError'', ''Exception'', ''BaseException'']"
| "mro StopIteration = [''StopIteration'', ''Exception'', ''BaseException'']"

definition builtin_exceptions :: "string list" where
  "builtin_exceptions = [''BaseException'', ''Exception'', ''StandardError'', ''EnvironmentError'',
     ''LookupError'', ''NameError'', ''IOError'', ''OSError'', ''TypeError'', ''ValueError'',
     ''IndexError'', ''StopIteration'']"

text \<open>
  \<^verbatim>\<open>except NAME:\<close> evaluates \<open>NAME\<close> once an exception has reached the clause: a global
  variable first (the script's variables hold lists, which match no exception), then the
  built-in names, else \<^verbatim>\<open>NameError\<close>.
\<close>

definition except_matches :: "state \<Rightarrow> string \<Rightarrow> pyerr \<Rightarrow> pyerr + bool" where
  "except_matches s name e =
     (case vars s name of
        Some v \<Rightarrow> Inr False
      | None \<Rightarrow> (if name \<in> set builtin_exceptions then Inr (name \<in> set (mro e))
                 else Inl (NameError name)))"

subsection \<open>Lines 12 to 28: reading the two files\<close>

text \<open>
  Lines 15 to 17 and lines 26 to 28 are the same three statements on different variables:
  each takes the next row of the reader, converts it and assigns the list.
\<close>

definition read_row :: "string \<Rightarrow> (field \<Rightarrow> pyerr + pynum) \<Rightarrow> csvfile \<Rightarrow> state \<Rightarrow> (pyerr \<times> state) + (csvfile \<times> state)" where
  "read_row name conv reader s =
     (case next_row reader of
        Inl e \<Rightarrow> Inl (e, s)
      | Inr (r, rest) \<Rightarrow>
          (case comprehension conv r of
             Inl e \<Rightarrow> Inl (e, s)
           | Inr vs \<Rightarrow> Inr (rest, assign name vs s)))"

definition read_rows :: "string \<Rightarrow> string \<Rightarrow> string \<Rightarrow> csvfile \<Rightarrow> state \<Rightarrow> result" where
  "read_rows n1 n2 n3 reader s =
     (case read_row n1 py_int reader s of
        Inl x \<Rightarrow> Inl x
      | Inr (reader1, s1) \<Rightarrow>
          (case read_row n2 py_float reader1 s1 of
             Inl x \<Rightarrow> Inl x
           | Inr (reader2, s2) \<Rightarrow>
               (case read_row n3 py_float reader2 s2 of
                  Inl x \<Rightarrow> Inl x
                | Inr (reader3, s3) \<Rightarrow> Inr s3)))"

text \<open>Lines 13 to 17, the body of the \<^verbatim>\<open>try\<close>.\<close>

definition try_read_aggregate :: "string \<Rightarrow> state \<Rightarrow> result" where
  "try_read_aggregate grp s =
     (if names_directory grp then Inl (IOError, s)
      else case aggregate s grp of
        None \<Rightarrow> Inl (IOError, s)
      | Some rows \<Rightarrow>
          (case csv_reader [''skipiInitialspace'', ''delimiter''] rows of
             Inl e \<Rightarrow> Inl (e, s)
           | Inr reader \<Rightarrow>
               read_rows ''aggregateTimeProfiles'' ''aggregateTotalCounts'' ''aggregateTimeStdevs''
                 reader s))"

text \<open>Lines 12 to 21, with the handler \<^verbatim>\<open>except IOERROR:\<close>.\<close>

definition load_aggregate :: "string \<Rightarrow> state \<Rightarrow> result" where
  "load_aggregate grp s =
     (case try_read_aggregate grp s of
        Inr s' \<Rightarrow> Inr s'
      | Inl (e, s') \<Rightarrow>
          (case except_matches s' ''IOERROR'' e of
             Inl ne \<Rightarrow> Inl (ne, s')
           | Inr False \<Rightarrow> Inl (e, s')
           | Inr True \<Rightarrow>
               Inr (assign ''aggregateTimeStdevs'' []
                     (assign ''aggregateTotalCounts'' []
                       (assign ''aggregateTimeProfiles'' [] s')))))"

text \<open>Lines 24 to 28.\<close>

definition load_published :: "string \<Rightarrow> state \<Rightarrow> result" where
  "load_published filename s =
     (case published s filename of
        None \<Rightarrow> Inl (IOError, s)
      | Some rows \<Rightarrow>
          (case csv_reader [''skipInitialspace'', ''delimiter''] rows of
             Inl e \<Rightarrow> Inl (e, s)
           | Inr reader \<Rightarrow> read_rows ''timeProfiles'' ''totalCounts'' ''timeStdevs'' reader s))"

subsection \<open>Lines 31 to 38: adding the published rows to the aggregate\<close>

text \<open>
  Lines 31 and 32. \<^verbatim>\<open>range(len(aggegateTimeProfiles))\<close> is evaluated once; the body
  \<^verbatim>\<open>aggregateTimeProfiles[i] += timeProfiles[i]\<close> reads both lists at \<open>i\<close>, and an index
  past the end of either raises \<^verbatim>\<open>IndexError\<close>.
\<close>

fun add_at :: "nat list \<Rightarrow> state \<Rightarrow> result" where
  "add_at [] s = Inr s"
| "add_at (i # rest) s =
     (case lookup s ''aggregateTimeProfiles'' of
        Inl e \<Rightarrow> Inl (e, s)
      | Inr a \<Rightarrow>
          if length a \<le> i then Inl (IndexError, s)
          else (case lookup s ''timeProfiles'' of
                  Inl e \<Rightarrow> Inl (e, s)
                | Inr t \<Rightarrow>
                    if length t \<le> i then Inl (IndexError, s)
                    else add_at rest
                           (assign ''aggregateTimeProfiles'' (a[i := py_add (a ! i) (t ! i)]) s)))"

definition sum_profiles :: "state \<Rightarrow> result" where
  "sum_profiles s =
     (case lookup s ''aggegateTimeProfiles'' of
        Inl e \<Rightarrow> Inl (e, s)
      | Inr g \<Rightarrow> add_at [0 ..< length g] s)"

text \<open>Line 33: \<^verbatim>\<open>aggregateTimeProfiles += timeProfiles[len(aggegateTimeProfiles):]\<close>.\<close>

definition extend_profiles :: "state \<Rightarrow> result" where
  "extend_profiles s =
     (case lookup s ''aggregateTimeProfiles'' of
        Inl e \<Rightarrow> Inl (e, s)
      | Inr a \<Rightarrow>
          (case lookup s ''timeProfiles'' of
             Inl e \<Rightarrow> Inl (e, s)
           | Inr t \<Rightarrow>
               (case lookup s ''aggegateTimeProfiles'' of
                  Inl e \<Rightarrow> Inl (e, s)
                | Inr g \<Rightarrow> Inr (assign ''aggregateTimeProfiles'' (a @ drop (length g) t) s))))"

text \<open>Lines 34 and 35: \<^verbatim>\<open>target += source\<close> on lists.\<close>

definition extend_list :: "string \<Rightarrow> string \<Rightarrow> state \<Rightarrow> result" where
  "extend_list target source s =
     (case lookup s target of
        Inl e \<Rightarrow> Inl (e, s)
      | Inr a \<Rightarrow>
          (case lookup s source of
             Inl e \<Rightarrow> Inl (e, s)
           | Inr t \<Rightarrow> Inr (assign target (a @ t) s)))"

text \<open>Lines 37 and 38: \<^verbatim>\<open>list.sort(name)\<close>.\<close>

definition sort_list :: "string \<Rightarrow> state \<Rightarrow> result" where
  "sort_list name s =
     (case lookup s name of
        Inl e \<Rightarrow> Inl (e, s)
      | Inr a \<Rightarrow> Inr (assign name (list_sort a) s))"

text \<open>Sequencing: an exception ends the sequence with the state reached.\<close>

definition and_then :: "result \<Rightarrow> (state \<Rightarrow> result) \<Rightarrow> result" where
  "and_then r f = (case r of Inl x \<Rightarrow> Inl x | Inr s \<Rightarrow> f s)"

text \<open>Lines 34 to 38 on their own.\<close>

definition concat_and_sort :: "state \<Rightarrow> result" where
  "concat_and_sort s =
     and_then (and_then (and_then (extend_list ''aggregateTotalCounts'' ''totalCounts'' s)
       (extend_list ''aggregateTimeStdevs'' ''timeStdevs''))
       (sort_list ''aggregateTotalCounts''))
       (sort_list ''aggregateTimeStdevs'')"

definition merge :: "state \<Rightarrow> result" where
  "merge s = and_then (and_then (sum_profiles s) extend_profiles) concat_and_sort"

subsection \<open>Lines 40 to 48: deleting the published file, writing the aggregate\<close>

text \<open>Line 41: \<^verbatim>\<open>os.remove\<close>.\<close>

definition remove_published :: "string \<Rightarrow> state \<Rightarrow> result" where
  "remove_published filename s =
     (case published s filename of
        None \<Rightarrow> Inl (OSError, s)
      | Some rows \<Rightarrow>
          Inr (s\<lparr>published := (published s)(filename := None),
                 effects := effects s @ [Removed filename]\<rparr>))"

text \<open>Lines 46 to 48: \<^verbatim>\<open>writer.writerow(name)\<close> appends one row to the open file.\<close>

definition writerow :: "string \<Rightarrow> string \<Rightarrow> state \<Rightarrow> result" where
  "writerow grp name s =
     (case lookup s name of
        Inl e \<Rightarrow> Inl (e, s)
      | Inr a \<Rightarrow>
          Inr (s\<lparr>aggregate := (aggregate s)(grp \<mapsto> (case aggregate s grp of None \<Rightarrow> [] | Some rows \<Rightarrow> rows) @ [map render a]),
                 effects := effects s @ [RowWritten grp (map render a)]\<rparr>))"

text \<open>
  Line 44: opening with mode \<^verbatim>\<open>'wb'\<close> creates the file or empties it, unless the path is
  a directory or otherwise refused, which raises \<^verbatim>\<open>IOError\<close> and changes nothing.
\<close>

definition open_for_writing :: "string \<Rightarrow> state \<Rightarrow> result" where
  "open_for_writing grp s =
     (if names_directory grp \<or> grp \<in> unwritable s then Inl (IOError, s)
      else Inr (s\<lparr>aggregate := (aggregate s)(grp \<mapsto> []),
                  effects := effects s @ [Truncated grp]\<rparr>))"

text \<open>Lines 44 to 48: the file is opened, then the three rows are written one after the other.\<close>

definition write_aggregate :: "string \<Rightarrow> state \<Rightarrow> result" where
  "write_aggregate grp s =
     (case open_for_writing grp s of
        Inl x \<Rightarrow> Inl x
      | Inr s0 \<Rightarrow>
          (case csv_writer [''delimiter''] of
             Inl e \<Rightarrow> Inl (e, s0)
           | Inr w \<Rightarrow>
               and_then (and_then (writerow grp ''aggregateTimeProfiles'' s0)
                 (writerow grp ''aggregateTotalCounts''))
                 (writerow grp ''aggregateTimeStdevs'')))"

text \<open>Lines 40 to 48 on their own.\<close>

definition remove_then_write :: "string \<Rightarrow> string \<Rightarrow> state \<Rightarrow> result" where
  "remove_then_write filename grp s = and_then (remove_published filename s) (write_aggregate grp)"

subsection \<open>The loop\<close>

text \<open>Lines 8 to 48, the body of the \<^verbatim>\<open>for\<close> loop, for one file name.\<close>

definition process_file :: "string \<Rightarrow> state \<Rightarrow> result" where
  "process_file filename s =
     (let grp = group_of filename
      in and_then (and_then (and_then (load_aggregate grp s)
           (load_published filename))
           merge)
           (remove_then_write filename grp))"

text \<open>
  Line 6: the loop over the listing. Nothing catches an exception of the body, so the
  first one ends the run.
\<close>

fun run :: "string list \<Rightarrow> state \<Rightarrow> result" where
  "run [] s = Inr s"
| "run (filename # rest) s =
     (case process_file filename s of
        Inl x \<Rightarrow> Inl x
      | Inr s' \<Rightarrow> run rest s')"

text \<open>Projections of a result, for stating what a run left behind.\<close>

definition final_state :: "result \<Rightarrow> state" where
  "final_state r = (case r of Inl (e, s) \<Rightarrow> s | Inr s \<Rightarrow> s)"

definition raised :: "result \<Rightarrow> pyerr option" where
  "raised r = (case r of Inl (e, s) \<Rightarrow> Some e | Inr s \<Rightarrow> None)"

subsection \<open>The format of an aggregate file\<close>

text \<open>
  The spec's invariant on an aggregate file: exactly three rows, each of numeric fields.
\<close>

fun numeric :: "field \<Rightarrow> bool" where
  "numeric (IntLit n) = True"
| "numeric (FloatLit r) = True"
| "numeric (Other t) = False"

definition three_numeric_rows :: "csvfile \<Rightarrow> bool" where
  "three_numeric_rows rows = (length rows = 3 \<and> list_all (list_all numeric) rows)"

subsection \<open>Concrete directories\<close>

text \<open>
  The two scenarios of the spec and a few more inputs: the published file \<open>portA_001\<close>
  with no aggregate; the published file \<open>portA_002\<close> with the aggregate \<open>portA\<close>
  present; both published files at once; a published file with a non-numeric field
  followed by a well-formed one; a published file of two rows and one of four rows; a
  published file whose name has no underscore. \<open>merged_in_memory\<close> is the second scenario
  with the three aggregate variables holding the merged lists, as they would on reaching
  line 40.
\<close>

definition portA_001_rows :: csvfile where
  "portA_001_rows = [[IntLit 1, IntLit 2, IntLit 3], [FloatLit 0.5, FloatLit 0.2], [FloatLit 0.1, FloatLit 0.3]]"

definition portA_002_rows :: csvfile where
  "portA_002_rows = [[IntLit 4, IntLit 5], [FloatLit 0.9], [FloatLit 0.05]]"

definition portA_rows :: csvfile where
  "portA_rows = [[IntLit 1, IntLit 2, IntLit 3], [FloatLit 0.2, FloatLit 0.5], [FloatLit 0.1, FloatLit 0.3]]"

definition aggregate_absent :: state where
  "aggregate_absent = init_state [''portA_001'' \<mapsto> portA_001_rows] Map.empty"

definition aggregate_present :: state where
  "aggregate_present = init_state [''portA_002'' \<mapsto> portA_002_rows] [''portA'' \<mapsto> portA_rows]"

definition two_published :: state where
  "two_published =
     init_state [''portA_001'' \<mapsto> portA_001_rows, ''portA_002'' \<mapsto> portA_002_rows] Map.empty"

definition malformed_first :: state where
  "malformed_first =
     init_state [''portA_001'' \<mapsto> [[IntLit 1, Other ''x''], [FloatLit 0.5], [FloatLit 0.1]],
                 ''portB_001'' \<mapsto> portA_001_rows] Map.empty"

definition two_rows_only :: state where
  "two_rows_only = init_state [''portA_001'' \<mapsto> [[IntLit 1, IntLit 2], [FloatLit 0.5]]] Map.empty"

definition four_rows :: state where
  "four_rows = init_state [''portA_001'' \<mapsto> portA_001_rows @ [[IntLit 9]]] Map.empty"

definition no_underscore :: state where
  "no_underscore = init_state [''portA'' \<mapsto> portA_001_rows] Map.empty"

definition merged_in_memory :: state where
  "merged_in_memory =
     assign ''aggregateTimeStdevs'' [PFloat 0.05, PFloat 0.1, PFloat 0.3]
       (assign ''aggregateTotalCounts'' [PFloat 0.2, PFloat 0.5, PFloat 0.9]
         (assign ''aggregateTimeProfiles'' [PInt 5, PInt 7, PInt 3] aggregate_present))"

section \<open>Properties\<close>

subsection \<open>No run gets past line 18\<close>

text \<open>
  Neither keyword \<^verbatim>\<open>skipiInitialspace\<close> (line 14) nor \<^verbatim>\<open>skipInitialspace\<close> (line 25) is
  a parameter of \<^verbatim>\<open>csv.reader\<close>, so both calls raise \<^verbatim>\<open>TypeError\<close>. The \<^verbatim>\<open>try\<close> of
  lines 12 to 17 therefore always raises: \<^verbatim>\<open>IOError\<close> when the aggregate is absent,
  \<^verbatim>\<open>TypeError\<close> when it is present. The clause \<^verbatim>\<open>except IOERROR\<close> then looks up a name
  that nothing defines, and the \<^verbatim>\<open>NameError\<close> ends the run at the first file name, with
  no file removed or written.
\<close>

lemma final_state_simps: "final_state (Inl (e, s)) = s" "final_state (Inr s) = s"
  by (simp_all add: final_state_def)

lemma raised_simps: "raised (Inl (e, s)) = Some e" "raised (Inr s) = None"
  by (simp_all add: raised_def)

lemma and_then_simps: "and_then (Inl x) f = Inl x" "and_then (Inr s) f = f s"
  by (simp_all add: and_then_def)

lemma reader_line14_rejected: "csv_reader [''skipiInitialspace'', ''delimiter''] rows = Inl TypeError"
  by (simp add: csv_reader_def csv_keywords_def)

lemma reader_line25_rejected: "csv_reader [''skipInitialspace'', ''delimiter''] rows = Inl TypeError"
  by (simp add: csv_reader_def csv_keywords_def)

lemma reader_lowercase_accepted: "csv_reader [''skipinitialspace'', ''delimiter''] rows = Inr rows"
  by (simp add: csv_reader_def csv_keywords_def)

lemma writer_line45_accepted: "csv_writer [''delimiter''] = Inr ()"
  by (simp add: csv_writer_def csv_keywords_def)

lemma try_read_aggregate_raises:
  "try_read_aggregate grp s =
     Inl (if names_directory grp \<or> aggregate s grp = None then IOError else TypeError, s)"
  by (cases "aggregate s grp") (simp_all add: try_read_aggregate_def reader_line14_rejected)

lemma IOERROR_not_builtin: "''IOERROR'' \<notin> set builtin_exceptions"
  by (simp add: builtin_exceptions_def)

lemma except_IOERROR_unbound:
  "vars s ''IOERROR'' = None \<Longrightarrow> except_matches s ''IOERROR'' e = Inl (NameError ''IOERROR'')"
  by (simp add: except_matches_def IOERROR_not_builtin)

lemma except_IOError_matches:
  "vars s ''IOError'' = None \<Longrightarrow> except_matches s ''IOError'' IOError = Inr True"
  by (simp add: except_matches_def builtin_exceptions_def)

lemma load_aggregate_raises:
  "vars s ''IOERROR'' = None \<Longrightarrow> load_aggregate grp s = Inl (NameError ''IOERROR'', s)"
  by (simp add: load_aggregate_def try_read_aggregate_raises except_IOERROR_unbound)

lemma load_aggregate_never_returns: "\<exists>e. load_aggregate grp s = Inl (e, s)"
proof (cases "vars s ''IOERROR''")
  case None
  then show ?thesis using load_aggregate_raises by blast
next
  case (Some v)
  then have "except_matches s ''IOERROR''
               (if names_directory grp \<or> aggregate s grp = None then IOError else TypeError) = Inr False"
    by (simp add: except_matches_def)
  then show ?thesis
    by (simp add: load_aggregate_def try_read_aggregate_raises)
qed

lemma load_published_raises:
  "load_published filename s = Inl (if published s filename = None then IOError else TypeError, s)"
  by (cases "published s filename") (simp_all add: load_published_def reader_line25_rejected)

lemma process_file_raises:
  "vars s ''IOERROR'' = None \<Longrightarrow> process_file filename s = Inl (NameError ''IOERROR'', s)"
  by (simp add: process_file_def Let_def and_then_simps load_aggregate_raises)

lemma process_file_never_returns: "\<exists>e. process_file filename s = Inl (e, s)"
proof -
  obtain e where "load_aggregate (group_of filename) s = Inl (e, s)"
    using load_aggregate_never_returns by blast
  then show ?thesis by (simp add: process_file_def Let_def and_then_simps)
qed

lemma process_file_state: "process_file filename s = Inl (e, s') \<Longrightarrow> s' = s"
  using process_file_never_returns [of filename s] by auto

lemma run_raises:
  "vars s ''IOERROR'' = None \<Longrightarrow> run (filename # rest) s = Inl (NameError ''IOERROR'', s)"
  by (simp add: process_file_raises)

lemma vars_init_state: "vars (init_state pub agg) n = None"
  by (simp add: init_state_def)

lemma run_init_raises:
  "run (filename # rest) (init_state pub agg) = Inl (NameError ''IOERROR'', init_state pub agg)"
  by (rule run_raises) (rule vars_init_state)

subsection \<open>The later statements on their own\<close>

text \<open>
  Lines 24 to 48 are not reached by any run. Taken from a state in which the variables
  they read are bound, they behave as follows: the name \<^verbatim>\<open>aggegateTimeProfiles\<close> of
  lines 31 and 33 is never assigned, so the sum raises \<^verbatim>\<open>NameError\<close>; a loop over the
  three indices of the aggregate row meets the end of a two-entry published row with
  \<^verbatim>\<open>IndexError\<close>; lines 34 to 38 concatenate and sort; three calls of \<^verbatim>\<open>next\<close> on a
  reader of two rows end in \<^verbatim>\<open>StopIteration\<close>, and rows past the third are never read;
  lines 44 to 48 write the three rows; lines 40 to 48 remove the published file first and
  write afterwards, and when the aggregate cannot be opened (as for the file \<open>_001\<close>, whose
  group is empty) the published file is already gone when \<^verbatim>\<open>open\<close> raises.
\<close>

lemma vars_assign: "vars (assign n v s) m = (if m = n then Some v else vars s m)"
  by (simp add: assign_def)

lemma lookup_bound: "vars s n = Some v \<Longrightarrow> lookup s n = Inr v"
  by (simp add: lookup_def)

lemma lookup_unbound: "vars s n = None \<Longrightarrow> lookup s n = Inl (NameError n)"
  by (simp add: lookup_def)

lemma sum_profiles_misspelled:
  "vars s ''aggegateTimeProfiles'' = None \<Longrightarrow>
     sum_profiles s = Inl (NameError ''aggegateTimeProfiles'', s)"
  by (simp add: sum_profiles_def lookup_unbound)

lemma extend_profiles_misspelled:
  "vars s ''aggregateTimeProfiles'' = Some a \<Longrightarrow> vars s ''timeProfiles'' = Some t \<Longrightarrow>
   vars s ''aggegateTimeProfiles'' = None \<Longrightarrow>
     extend_profiles s = Inl (NameError ''aggegateTimeProfiles'', s)"
  by (simp add: extend_profiles_def lookup_unbound lookup_bound)

lemma merge_misspelled:
  "vars s ''aggegateTimeProfiles'' = None \<Longrightarrow> merge s = Inl (NameError ''aggegateTimeProfiles'', s)"
  by (simp add: merge_def sum_profiles_misspelled and_then_simps)

lemma add_at_past_published_row:
  "raised (add_at [0, 1, 2]
     (assign ''timeProfiles'' [PInt 4, PInt 5]
       (assign ''aggregateTimeProfiles'' [PInt 1, PInt 2, PInt 3] aggregate_present)))
   = Some IndexError"
  by (simp add: lookup_def assign_def raised_def)

lemma extend_list_bound:
  "vars s target = Some a \<Longrightarrow> vars s source = Some t \<Longrightarrow>
     extend_list target source s = Inr (assign target (a @ t) s)"
  by (simp add: extend_list_def lookup_bound)

lemma sort_list_bound:
  "vars s name = Some a \<Longrightarrow> sort_list name s = Inr (assign name (list_sort a) s)"
  by (simp add: sort_list_def lookup_bound)

lemma concat_and_sort_bound:
  assumes "vars s ''aggregateTotalCounts'' = Some a" and "vars s ''totalCounts'' = Some t"
    and "vars s ''aggregateTimeStdevs'' = Some b" and "vars s ''timeStdevs'' = Some u"
  shows "\<exists>s'. concat_and_sort s = Inr s' \<and>
           vars s' ''aggregateTotalCounts'' = Some (list_sort (a @ t)) \<and>
           vars s' ''aggregateTimeStdevs'' = Some (list_sort (b @ u))"
proof -
  let ?s1 = "assign ''aggregateTotalCounts'' (a @ t) s"
  let ?s2 = "assign ''aggregateTimeStdevs'' (b @ u) ?s1"
  let ?s3 = "assign ''aggregateTotalCounts'' (list_sort (a @ t)) ?s2"
  let ?s4 = "assign ''aggregateTimeStdevs'' (list_sort (b @ u)) ?s3"
  have 1: "extend_list ''aggregateTotalCounts'' ''totalCounts'' s = Inr ?s1"
    using assms(1,2) by (rule extend_list_bound)
  have 2: "extend_list ''aggregateTimeStdevs'' ''timeStdevs'' ?s1 = Inr ?s2"
    by (rule extend_list_bound) (simp_all add: vars_assign assms)
  have 3: "sort_list ''aggregateTotalCounts'' ?s2 = Inr ?s3"
    by (rule sort_list_bound) (simp add: vars_assign)
  have 4: "sort_list ''aggregateTimeStdevs'' ?s3 = Inr ?s4"
    by (rule sort_list_bound) (simp add: vars_assign)
  have "concat_and_sort s = Inr ?s4"
    by (simp only: concat_and_sort_def 1 2 3 4 and_then_simps)
  moreover have "vars ?s4 ''aggregateTotalCounts'' = Some (list_sort (a @ t))"
    by (simp add: vars_assign)
  moreover have "vars ?s4 ''aggregateTimeStdevs'' = Some (list_sort (b @ u))"
    by (simp add: vars_assign)
  ultimately show ?thesis by blast
qed

lemma list_sort_example: "list_sort [PFloat 0.5, PFloat 0.2] = [PFloat 0.2, PFloat 0.5]"
  by (simp add: list_sort_def)

lemma list_sort_sorted: "sorted (map num_value (list_sort xs))"
  by (simp add: list_sort_def)

lemma list_sort_same_entries: "set (list_sort xs) = set xs \<and> length (list_sort xs) = length xs"
  by (simp add: list_sort_def)

lemma read_rows_exhausted:
  "read_rows n1 n2 n3 [[IntLit 1, IntLit 2], [FloatLit 0.5]] s =
     Inl (StopIteration, assign n2 [PFloat 0.5] (assign n1 [PInt 1, PInt 2] s))"
  by (simp add: read_rows_def read_row_def next_row_def)

lemma read_row_value_error:
  "read_row n py_int ([IntLit 1, Other ''x''] # rest) s = Inl (ValueError, s)"
  by (simp add: read_row_def next_row_def)

lemma read_rows_ignores_rest:
  "read_rows n1 n2 n3 (r1 # r2 # r3 # extra) s = read_rows n1 n2 n3 [r1, r2, r3] s"
  by (simp add: read_rows_def read_row_def next_row_def split: sum.splits)

lemma numeric_render: "numeric (render v)"
  by (cases v) simp_all

lemma numeric_row: "list_all numeric (map render vs)"
  by (induction vs) (simp_all add: numeric_render)

lemma writerow_bound:
  "vars s name = Some a \<Longrightarrow>
     writerow grp name s =
       Inr (s\<lparr>aggregate := (aggregate s)(grp \<mapsto> (case aggregate s grp of None \<Rightarrow> [] | Some rows \<Rightarrow> rows) @ [map render a]),
              effects := effects s @ [RowWritten grp (map render a)]\<rparr>)"
  by (simp add: writerow_def lookup_bound)

lemma writerow_returns:
  "writerow grp name s = Inr s' \<Longrightarrow> \<exists>a. vars s name = Some a"
  by (cases "vars s name") (simp_all add: writerow_def lookup_def)

lemma writerow_vars: "writerow grp name s = Inr s' \<Longrightarrow> vars s' = vars s"
  by (cases "vars s name") (auto simp: writerow_def lookup_def)

lemma open_for_writing_refused:
  "names_directory grp \<or> grp \<in> unwritable s \<Longrightarrow> open_for_writing grp s = Inl (IOError, s)"
  by (simp add: open_for_writing_def)

lemma open_for_writing_granted:
  "\<not> names_directory grp \<Longrightarrow> grp \<notin> unwritable s \<Longrightarrow>
     open_for_writing grp s =
       Inr (s\<lparr>aggregate := (aggregate s)(grp \<mapsto> []), effects := effects s @ [Truncated grp]\<rparr>)"
  by (simp add: open_for_writing_def)

lemma open_for_writing_returns:
  "open_for_writing grp s = Inr s0 \<Longrightarrow> \<not> names_directory grp \<and> grp \<notin> unwritable s"
  by (cases "names_directory grp \<or> grp \<in> unwritable s") (simp_all add: open_for_writing_def)

lemma write_aggregate_refused:
  "names_directory grp \<or> grp \<in> unwritable s \<Longrightarrow> write_aggregate grp s = Inl (IOError, s)"
  by (simp add: write_aggregate_def open_for_writing_refused)

lemma write_aggregate_bound:
  assumes "\<not> names_directory grp" and "grp \<notin> unwritable s"
    and "vars s ''aggregateTimeProfiles'' = Some a"
    and "vars s ''aggregateTotalCounts'' = Some c"
    and "vars s ''aggregateTimeStdevs'' = Some d"
  shows "write_aggregate grp s =
     Inr (s\<lparr>aggregate := (aggregate s)(grp \<mapsto> [map render a, map render c, map render d]),
            effects := effects s @ [Truncated grp, RowWritten grp (map render a),
                         RowWritten grp (map render c), RowWritten grp (map render d)]\<rparr>)"
  using assms(3-5)
  by (simp add: write_aggregate_def open_for_writing_granted [OF assms(1,2)]
        writer_line45_accepted and_then_simps writerow_bound)

lemma write_aggregate_opened:
  assumes "write_aggregate grp s = Inr s'"
  shows "\<not> names_directory grp \<and> grp \<notin> unwritable s"
proof (cases "open_for_writing grp s")
  case (Inl x)
  then show ?thesis using assms by (simp add: write_aggregate_def)
next
  case (Inr s0)
  then show ?thesis by (rule open_for_writing_returns)
qed

lemma write_aggregate_returns:
  assumes "write_aggregate grp s = Inr s'"
  shows "\<exists>a c d. vars s ''aggregateTimeProfiles'' = Some a \<and>
           vars s ''aggregateTotalCounts'' = Some c \<and> vars s ''aggregateTimeStdevs'' = Some d"
proof -
  let ?s0 = "s\<lparr>aggregate := (aggregate s)(grp \<mapsto> []), effects := effects s @ [Truncated grp]\<rparr>"
  have o: "open_for_writing grp s = Inr ?s0"
    using write_aggregate_opened [OF assms] by (simp add: open_for_writing_granted)
  have w: "and_then (and_then (writerow grp ''aggregateTimeProfiles'' ?s0)
             (writerow grp ''aggregateTotalCounts'')) (writerow grp ''aggregateTimeStdevs'') = Inr s'"
    using assms by (simp add: write_aggregate_def o writer_line45_accepted)
  obtain s1 where 1: "writerow grp ''aggregateTimeProfiles'' ?s0 = Inr s1"
    using w by (cases "writerow grp ''aggregateTimeProfiles'' ?s0") (simp_all add: and_then_simps)
  obtain s2 where 2: "writerow grp ''aggregateTotalCounts'' s1 = Inr s2"
    using w 1 by (cases "writerow grp ''aggregateTotalCounts'' s1") (simp_all add: and_then_simps)
  have 3: "writerow grp ''aggregateTimeStdevs'' s2 = Inr s'"
    using w 1 2 by (simp add: and_then_simps)
  obtain a where a: "vars ?s0 ''aggregateTimeProfiles'' = Some a"
    using writerow_returns [OF 1] by blast
  have v1: "vars s1 = vars s"
    using writerow_vars [OF 1] by simp
  obtain c where c: "vars s1 ''aggregateTotalCounts'' = Some c"
    using writerow_returns [OF 2] by blast
  have v2: "vars s2 = vars s"
    using writerow_vars [OF 2] v1 by simp
  obtain d where d: "vars s2 ''aggregateTimeStdevs'' = Some d"
    using writerow_returns [OF 3] by blast
  show ?thesis using a c d v1 v2 by simp
qed

lemma vars_merged_in_memory:
  "vars merged_in_memory ''aggregateTimeProfiles'' = Some [PInt 5, PInt 7, PInt 3]"
  "vars merged_in_memory ''aggregateTotalCounts'' = Some [PFloat 0.2, PFloat 0.5, PFloat 0.9]"
  "vars merged_in_memory ''aggregateTimeStdevs'' = Some [PFloat 0.05, PFloat 0.1, PFloat 0.3]"
  by (simp_all add: merged_in_memory_def vars_assign)

lemma remove_published_present:
  "published s filename = Some rows \<Longrightarrow>
     remove_published filename s =
       Inr (s\<lparr>published := (published s)(filename := None),
              effects := effects s @ [Removed filename]\<rparr>)"
  by (simp add: remove_published_def)

lemma published_merged_in_memory:
  "published merged_in_memory ''portA_002'' = Some portA_002_rows"
  by (simp add: merged_in_memory_def assign_def aggregate_present_def init_state_def)

lemma aggregate_merged_in_memory:
  "aggregate merged_in_memory ''portA'' = Some portA_rows"
  by (simp add: merged_in_memory_def assign_def aggregate_present_def init_state_def)

lemma effects_merged_in_memory: "effects merged_in_memory = []"
  by (simp add: merged_in_memory_def assign_def aggregate_present_def init_state_def)

lemma unwritable_merged_in_memory: "''portA'' \<notin> unwritable merged_in_memory"
  by (simp add: merged_in_memory_def assign_def aggregate_present_def init_state_def)

lemma portA_not_directory: "\<not> names_directory ''portA''"
  by (simp add: names_directory_def)

lemma remove_then_write_order:
  assumes "published s filename = Some rows"
    and "\<not> names_directory grp" and "grp \<notin> unwritable s"
    and "vars s ''aggregateTimeProfiles'' = Some a"
    and "vars s ''aggregateTotalCounts'' = Some c"
    and "vars s ''aggregateTimeStdevs'' = Some d"
  shows "raised (remove_then_write filename grp s) = None \<and>
         effects (final_state (remove_then_write filename grp s)) =
           effects s @ [Removed filename, Truncated grp, RowWritten grp (map render a),
                        RowWritten grp (map render c), RowWritten grp (map render d)] \<and>
         published (final_state (remove_published filename s)) filename = None \<and>
         aggregate (final_state (remove_published filename s)) = aggregate s"
proof -
  let ?s1 = "s\<lparr>published := (published s)(filename := None),
               effects := effects s @ [Removed filename]\<rparr>"
  have r: "remove_published filename s = Inr ?s1"
    using assms(1) by (rule remove_published_present)
  have w: "write_aggregate grp ?s1 =
     Inr (?s1\<lparr>aggregate := (aggregate ?s1)(grp \<mapsto> [map render a, map render c, map render d]),
            effects := effects ?s1 @ [Truncated grp, RowWritten grp (map render a),
                         RowWritten grp (map render c), RowWritten grp (map render d)]\<rparr>)"
    by (rule write_aggregate_bound) (simp_all add: assms)
  have rw: "remove_then_write filename grp s =
     Inr (?s1\<lparr>aggregate := (aggregate ?s1)(grp \<mapsto> [map render a, map render c, map render d]),
            effects := effects ?s1 @ [Truncated grp, RowWritten grp (map render a),
                         RowWritten grp (map render c), RowWritten grp (map render d)]\<rparr>)"
    by (simp only: remove_then_write_def r and_then_simps w)
  show ?thesis
    unfolding rw r raised_simps final_state_simps by simp
qed

lemma remove_then_write_refused:
  assumes "published s filename = Some rows"
    and "names_directory grp \<or> grp \<in> unwritable s"
  shows "remove_then_write filename grp s =
     Inl (IOError, s\<lparr>published := (published s)(filename := None),
                      effects := effects s @ [Removed filename]\<rparr>)"
proof -
  let ?s1 = "s\<lparr>published := (published s)(filename := None),
               effects := effects s @ [Removed filename]\<rparr>"
  have r: "remove_published filename s = Inr ?s1"
    using assms(1) by (rule remove_published_present)
  have w: "write_aggregate grp ?s1 = Inl (IOError, ?s1)"
    by (rule write_aggregate_refused) (use assms(2) in simp)
  show ?thesis
    by (simp only: remove_then_write_def r and_then_simps w)
qed

lemma group_of_leading_underscore: "group_of ''_001'' = [] \<and> names_directory (group_of ''_001'')"
  by (simp add: group_of_def rsplit1_def names_directory_def)


subsection \<open>The claims\<close>

text \<open>
  Claim C1 says that merging the published row \<open>[4,5]\<close> into the aggregate row
  \<open>[1,2,3]\<close> yields \<open>[5,7,3]\<close>. The script, run on that scenario, ends with
  \<^verbatim>\<open>NameError\<close> for \<^verbatim>\<open>IOERROR\<close> and leaves the aggregate \<open>portA\<close> as it was, first row
  \<open>[1,2,3]\<close>.
\<close>

theorem profiles_scenario_not_merged:
  "raised (run [''portA_002''] aggregate_present) = Some (NameError ''IOERROR'') \<and>
   aggregate (final_state (run [''portA_002''] aggregate_present)) ''portA'' =
     Some [[IntLit 1, IntLit 2, IntLit 3], [FloatLit 0.2, FloatLit 0.5], [FloatLit 0.1, FloatLit 0.3]]"
proof -
  have r: "run [''portA_002''] aggregate_present = Inl (NameError ''IOERROR'', aggregate_present)"
    unfolding aggregate_present_def by (rule run_init_raises)
  have a: "aggregate aggregate_present ''portA'' = Some portA_rows"
    by (simp add: aggregate_present_def init_state_def)
  show ?thesis
    unfolding r raised_simps final_state_simps a portA_rows_def by simp
qed

text \<open>
  Claim C2 says that a published file whose group has no aggregate is merged starting from
  three empty lists. The script, run on \<open>portA_001\<close> with no aggregate, ends with
  \<^verbatim>\<open>NameError\<close> for \<^verbatim>\<open>IOERROR\<close> in the state it started from: the handler meant for the
  missing file is never entered.
\<close>

theorem absent_aggregate_raises:
  "run [''portA_001''] aggregate_absent = Inl (NameError ''IOERROR'', aggregate_absent)"
  unfolding aggregate_absent_def by (rule run_init_raises)


text \<open>
  Claim C4, as amended. A published file whose processing raises an exception is not
  skipped: nothing catches the exception, so the run ends at that file with that
  exception and the remaining file names are not processed. The published directory,
  the aggregate directory and the effects are those from before the file.
\<close>

theorem exception_ends_run:
  "process_file filename s = Inl (e, s') \<Longrightarrow>
     run (filename # rest) s = Inl (e, s') \<and>
     published s' = published s \<and> aggregate s' = aggregate s \<and> effects s' = effects s"
proof -
  assume p: "process_file filename s = Inl (e, s')"
  have s: "s' = s" using p by (rule process_file_state)
  have "run (filename # rest) s = Inl (e, s')" using p by simp
  then show ?thesis using s by simp
qed

text \<open>The same on a published file with a non-numeric field followed by a second file.\<close>

theorem exception_ends_run_witness:
  "process_file ''portA_001'' malformed_first = Inl (NameError ''IOERROR'', malformed_first) \<and>
   run [''portA_001'', ''portB_001''] malformed_first = Inl (NameError ''IOERROR'', malformed_first)"
proof -
  have p: "process_file ''portA_001'' malformed_first = Inl (NameError ''IOERROR'', malformed_first)"
    unfolding malformed_first_def by (rule process_file_raises) (rule vars_init_state)
  have "run [''portA_001'', ''portB_001''] malformed_first = Inl (NameError ''IOERROR'', malformed_first)"
    using exception_ends_run [OF p, of "[''portB_001'']"] by (rule conjunct1)
  then show ?thesis using p by (intro conjI)
qed

text \<open>
  Against claim C4 as stated (the malformed file is skipped and the run continues with
  the next file): with a malformed \<open>portA_001\<close> followed by a well-formed \<open>portB_001\<close>,
  the run ends with an exception, \<open>portB_001\<close> is still in the published directory and
  no aggregate \<open>portB\<close> exists.
\<close>

theorem malformed_file_ends_run:
  "raised (run [''portA_001'', ''portB_001''] malformed_first) = Some (NameError ''IOERROR'') \<and>
   published (final_state (run [''portA_001'', ''portB_001''] malformed_first)) ''portB_001''
     = Some portA_001_rows \<and>
   aggregate (final_state (run [''portA_001'', ''portB_001''] malformed_first)) ''portB'' = None"
proof -
  have r: "run [''portA_001'', ''portB_001''] malformed_first
             = Inl (NameError ''IOERROR'', malformed_first)"
    unfolding malformed_first_def by (rule run_init_raises)
  have p: "published malformed_first ''portB_001'' = Some portA_001_rows"
    by (simp add: malformed_first_def init_state_def)
  have a: "aggregate malformed_first ''portB'' = None"
    by (simp add: malformed_first_def init_state_def)
  show ?thesis
    unfolding r raised_simps final_state_simps p a by simp
qed

text \<open>
  Claim C5 says that merging the rows of \<open>portA_001\<close> (total counts \<open>[0.5,0.2]\<close>) into
  an absent aggregate yields the total counts \<open>[0.2,0.5]\<close>. The script, run on that
  scenario, leaves no aggregate \<open>portA\<close> at all.
\<close>

theorem counts_scenario_not_written:
  "aggregate (final_state (run [''portA_001''] aggregate_absent)) ''portA'' = None"
proof -
  have r: "run [''portA_001''] aggregate_absent = Inl (NameError ''IOERROR'', aggregate_absent)"
    unfolding aggregate_absent_def by (rule run_init_raises)
  have a: "aggregate aggregate_absent ''portA'' = None"
    by (simp add: aggregate_absent_def init_state_def)
  show ?thesis
    unfolding r final_state_simps by (rule a)
qed

text \<open>
  Claim C6 says that merging two published files in either order gives the same
  aggregate. The script, run on two published files of one group in either order of the
  listing, ends with \<^verbatim>\<open>NameError\<close> for \<^verbatim>\<open>IOERROR\<close> at the first of them and merges
  neither.
\<close>

theorem either_order_raises:
  "run [''portA_001'', ''portA_002''] two_published = Inl (NameError ''IOERROR'', two_published) \<and>
   run [''portA_002'', ''portA_001''] two_published = Inl (NameError ''IOERROR'', two_published)"
  unfolding two_published_def by (intro conjI run_init_raises)

text \<open>
  Claim C8. Whenever lines 44 to 48 complete, the aggregate file of the group consists of
  exactly three rows, in the order time profiles, total counts, time standard deviations,
  whatever the file held before; the rows are the rendered values of the three aggregate
  variables and every field of them is numeric.
\<close>

theorem written_aggregate_three_rows:
  "write_aggregate grp s = Inr s' \<Longrightarrow>
     (\<exists>a c d. vars s ''aggregateTimeProfiles'' = Some a \<and>
              vars s ''aggregateTotalCounts'' = Some c \<and>
              vars s ''aggregateTimeStdevs'' = Some d \<and>
              aggregate s' grp = Some [map render a, map render c, map render d] \<and>
              three_numeric_rows [map render a, map render c, map render d])"
proof -
  assume w: "write_aggregate grp s = Inr s'"
  obtain a c d where a: "vars s ''aggregateTimeProfiles'' = Some a"
    and c: "vars s ''aggregateTotalCounts'' = Some c"
    and d: "vars s ''aggregateTimeStdevs'' = Some d"
    using write_aggregate_returns [OF w] by blast
  have "aggregate s' grp = Some [map render a, map render c, map render d]"
    using w write_aggregate_opened [OF w]
    by (simp add: write_aggregate_bound [OF _ _ a c d]) auto
  moreover have "three_numeric_rows [map render a, map render c, map render d]"
    by (simp add: three_numeric_rows_def numeric_row)
  ultimately show ?thesis using a c d by blast
qed

text \<open>The same on the second scenario of the spec, with the merged lists in memory.\<close>

theorem written_aggregate_three_rows_witness:
  "raised (write_aggregate ''portA'' merged_in_memory) = None \<and>
   aggregate (final_state (write_aggregate ''portA'' merged_in_memory)) ''portA'' =
     Some [[IntLit 5, IntLit 7, IntLit 3], [FloatLit 0.2, FloatLit 0.5, FloatLit 0.9],
           [FloatLit 0.05, FloatLit 0.1, FloatLit 0.3]]"
proof -
  let ?s' = "merged_in_memory\<lparr>aggregate := (aggregate merged_in_memory)(''portA'' \<mapsto>
      [map render [PInt 5, PInt 7, PInt 3], map render [PFloat 0.2, PFloat 0.5, PFloat 0.9],
       map render [PFloat 0.05, PFloat 0.1, PFloat 0.3]]),
     effects := effects merged_in_memory @ [Truncated ''portA'',
       RowWritten ''portA'' (map render [PInt 5, PInt 7, PInt 3]),
       RowWritten ''portA'' (map render [PFloat 0.2, PFloat 0.5, PFloat 0.9]),
       RowWritten ''portA'' (map render [PFloat 0.05, PFloat 0.1, PFloat 0.3])]\<rparr>"
  have w: "write_aggregate ''portA'' merged_in_memory = Inr ?s'"
    by (rule write_aggregate_bound)
       (rule portA_not_directory unwritable_merged_in_memory vars_merged_in_memory)+
  obtain a c d where v: "vars merged_in_memory ''aggregateTimeProfiles'' = Some a"
      "vars merged_in_memory ''aggregateTotalCounts'' = Some c"
      "vars merged_in_memory ''aggregateTimeStdevs'' = Some d"
    and g: "aggregate ?s' ''portA'' = Some [map render a, map render c, map render d]"
    using written_aggregate_three_rows [OF w] by blast
  have "a = [PInt 5, PInt 7, PInt 3]" "c = [PFloat 0.2, PFloat 0.5, PFloat 0.9]"
       "d = [PFloat 0.05, PFloat 0.1, PFloat 0.3]"
    using v by (simp_all add: vars_merged_in_memory)
  then have "aggregate ?s' ''portA'' =
     Some [[IntLit 5, IntLit 7, IntLit 3], [FloatLit 0.2, FloatLit 0.5, FloatLit 0.9],
           [FloatLit 0.05, FloatLit 0.1, FloatLit 0.3]]"
    using g by simp
  then show ?thesis
    unfolding w raised_simps final_state_simps by simp
qed

text \<open>
  Claim C10 says that a file of fewer than three rows fails in \<^verbatim>\<open>next\<close> on the reader,
  and that rows after the third are ignored. The script, run on a published file of two
  rows, ends with \<^verbatim>\<open>NameError\<close> for \<^verbatim>\<open>IOERROR\<close>, not \<^verbatim>\<open>StopIteration\<close>; run on a
  published file of four well-formed rows it ends the same way and writes no aggregate.
\<close>

theorem short_and_long_files_raise:
  "raised (run [''portA_001''] two_rows_only) = Some (NameError ''IOERROR'') \<and>
   raised (run [''portA_001''] four_rows) = Some (NameError ''IOERROR'') \<and>
   aggregate (final_state (run [''portA_001''] four_rows)) ''portA'' = None"
proof -
  have r2: "run [''portA_001''] two_rows_only = Inl (NameError ''IOERROR'', two_rows_only)"
    unfolding two_rows_only_def by (rule run_init_raises)
  have r4: "run [''portA_001''] four_rows = Inl (NameError ''IOERROR'', four_rows)"
    unfolding four_rows_def by (rule run_init_raises)
  have a: "aggregate four_rows ''portA'' = None"
    by (simp add: four_rows_def init_state_def)
  show ?thesis
    unfolding r2 r4 raised_simps final_state_simps a by simp
qed

subsection \<open>The group key\<close>

lemma segments_nonempty: "segments c s \<noteq> []"
  by (induction s) (auto split: list.splits)

lemma segments_no_sep: "c \<notin> set s \<Longrightarrow> segments c s = [s]"
  by (induction s) auto

lemma has_last_sep:
  "c \<in> set s \<Longrightarrow> \<exists>prefix suffix. s = prefix @ c # suffix \<and> c \<notin> set suffix"
  using split_list_last [of c s] by blast

lemma segments_append_sep: "segments c (prefix @ c # rest) = segments c prefix @ segments c rest"
proof (induction prefix)
  case Nil
  show ?case by simp
next
  case (Cons x xs)
  obtain seg segs where sg: "segments c xs = seg # segs"
    using segments_nonempty [of c xs] by (cases "segments c xs") auto
  show ?case using Cons sg by simp
qed

lemma join_cons_char: "join c ((x # seg) # segs) = x # join c (seg # segs)"
  by (cases segs) simp_all

lemma join_segments: "join c (segments c s) = s"
proof (induction s)
  case Nil
  show ?case by simp
next
  case (Cons x xs)
  obtain seg segs where sg: "segments c xs = seg # segs"
    using segments_nonempty [of c xs] by (cases "segments c xs") auto
  show ?case
  proof (cases "x = c")
    case True
    have "join c ([] # seg # segs) = c # join c (seg # segs)" by simp
    then show ?thesis using True Cons sg by simp
  next
    case False
    then show ?thesis using Cons sg by (simp add: join_cons_char)
  qed
qed

lemma rsplit1_no_sep: "c \<notin> set s \<Longrightarrow> rsplit1 c s = [s]"
  by (simp add: rsplit1_def)

lemma rsplit1_last_sep:
  "c \<notin> set suffix \<Longrightarrow> rsplit1 c (prefix @ c # suffix) = [prefix, suffix]"
proof -
  assume a: "c \<notin> set suffix"
  have tw: "takeWhile (\<lambda>x. x \<noteq> c) (rev suffix @ c # rev prefix) = rev suffix"
    using a by (subst takeWhile_append2) auto
  have dw: "dropWhile (\<lambda>x. x \<noteq> c) (rev suffix @ c # rev prefix) = c # rev prefix"
    using a by (subst dropWhile_append2) auto
  show ?thesis by (simp add: rsplit1_def tw dw)
qed

lemma without_last_segment_decomposed:
  "CHR ''_'' \<notin> set suffix \<Longrightarrow> without_last_segment (prefix @ CHR ''_'' # suffix) = prefix"
proof -
  assume a: "CHR ''_'' \<notin> set suffix"
  have "segments (CHR ''_'') (prefix @ CHR ''_'' # suffix) = segments (CHR ''_'') prefix @ [suffix]"
    using segments_no_sep [OF a] by (simp only: segments_append_sep)
  then have "butlast (segments (CHR ''_'') (prefix @ CHR ''_'' # suffix)) = segments (CHR ''_'') prefix"
    by (simp only: butlast_snoc)
  then show ?thesis
    by (simp only: without_last_segment_def join_segments)
qed

lemma group_of_decomposed:
  "CHR ''_'' \<notin> set suffix \<Longrightarrow> group_of (prefix @ CHR ''_'' # suffix) = prefix"
  by (simp add: group_of_def rsplit1_last_sep)

text \<open>
  Claim C7. A published file is named \<open><group>_<suffix>\<close>. For every file name that
  contains an underscore, the group key computed by line 9 is the file name with its last
  \<open>_\<close>-delimited segment removed: it equals the spec's wording of the key, and the file
  name is the key, an underscore and a last segment free of underscores
  (\<open>portA_001\<close> gives \<open>portA\<close>).
\<close>

theorem group_of_drops_last_segment:
  "CHR ''_'' \<in> set filename \<Longrightarrow>
     group_of filename = without_last_segment filename \<and>
     (\<exists>suffix. CHR ''_'' \<notin> set suffix \<and> filename = group_of filename @ CHR ''_'' # suffix)"
proof -
  assume m: "CHR ''_'' \<in> set filename"
  obtain prefix suffix where
    f: "filename = prefix @ CHR ''_'' # suffix" and n: "CHR ''_'' \<notin> set suffix"
    using has_last_sep [OF m] by (elim exE conjE)
  have g: "group_of filename = prefix"
    using group_of_decomposed [OF n, of prefix] by (simp only: f)
  have w: "without_last_segment filename = prefix"
    using without_last_segment_decomposed [OF n, of prefix] by (simp only: f)
  have d: "filename = group_of filename @ CHR ''_'' # suffix"
    by (subst g) (rule f)
  have "\<exists>suffix. CHR ''_'' \<notin> set suffix \<and> filename = group_of filename @ CHR ''_'' # suffix"
    using n d by (intro exI conjI)
  moreover have "group_of filename = without_last_segment filename"
    by (simp only: g w)
  ultimately show ?thesis by (intro conjI)
qed

theorem group_of_drops_last_segment_witness:
  "CHR ''_'' \<in> set ''portA_001'' \<and> group_of ''portA_001'' = ''portA'' \<and>
   without_last_segment ''portA_001'' = ''portA''"
proof -
  have h: "CHR ''_'' \<in> set ''portA_001''" by simp
  have e: "group_of ''portA_001'' = without_last_segment ''portA_001''"
    using group_of_drops_last_segment [OF h] by (rule conjunct1)
  have w: "without_last_segment ''portA_001'' = ''portA''"
    by (simp add: without_last_segment_def)
  have g: "group_of ''portA_001'' = ''portA''"
    using e w by (rule trans)
  show ?thesis using h g w by (intro conjI)
qed

lemma group_of_no_underscore: "CHR ''_'' \<notin> set filename \<Longrightarrow> group_of filename = filename"
  by (simp add: group_of_def rsplit1_no_sep)

text \<open>
  Claim C9 says that a published file whose name has no underscore is merged into the
  aggregate of the same name. For the file \<open>portA\<close> the group key of line 9 is indeed
  \<open>portA\<close>, but the run ends with \<^verbatim>\<open>NameError\<close> for \<^verbatim>\<open>IOERROR\<close>: no aggregate
  \<open>portA\<close> comes to exist and the published file stays where it was, unmerged.
\<close>

theorem file_without_underscore_not_merged:
  "group_of ''portA'' = ''portA'' \<and>
   raised (run [''portA''] no_underscore) = Some (NameError ''IOERROR'') \<and>
   aggregate (final_state (run [''portA''] no_underscore)) ''portA'' = None \<and>
   published (final_state (run [''portA''] no_underscore)) ''portA'' = Some portA_001_rows"
proof -
  have g: "group_of ''portA'' = ''portA''"
    by (rule group_of_no_underscore) simp
  have r: "run [''portA''] no_underscore = Inl (NameError ''IOERROR'', no_underscore)"
    unfolding no_underscore_def by (rule run_init_raises)
  have a: "aggregate no_underscore ''portA'' = None"
    by (simp add: no_underscore_def init_state_def)
  have p: "published no_underscore ''portA'' = Some portA_001_rows"
    by (simp add: no_underscore_def init_state_def)
  show ?thesis
    unfolding r raised_simps final_state_simps g a p by simp
qed

end
